theory Spec2Isabelle
  imports Complex_Main "HOL-Library.Multiset"
begin

section \<open>JavaScript values and strings\<close>

text \<open>
  The request body reaches the validation pipe as a parsed JSON object: its properties
  in the order they were written, each with a JSON value, which is \<open>null\<close>, a boolean,
  a number, a string, an array of values or an object again. A number is a double:
  not-a-number, an infinity, or a finite value, which is a rational. \<open>JUndefined\<close> is
  the value of a property the body does not have.
\<close>

datatype jsnum = NaN | PosInf | NegInf | Fin rat

datatype jsval =
    JUndefined | JNull | JBool bool | JNum jsnum | JStr string
  | JArr "jsval list" | JObj "(string \<times> jsval) list"

type_synonym body = "(string \<times> jsval) list"

datatype js_error = TypeError

text \<open>
  A string is a list of code units. \<open>char\<close> has the code units 0 to 255, so the model
  covers the strings of the Latin-1 range, which holds every character the two regular
  expressions of the DTO name (\<open>a-z\<close>, \<open>A-Z\<close>, \<open>0-9\<close>, the symbols, and U+00C0 to
  U+00FF). Strings with a code unit above U+00FF are outside the model: their
  lowercase form is a table of the runtime, and the length rules count a surrogate
  pair in them as one character. No string of the model has a surrogate pair, so the
  length the rules count is the number of code units.
\<close>

definition code :: "char \<Rightarrow> nat" where
  "code c = of_char c"

text \<open>The character classes \<open>[a-z]\<close>, \<open>[A-Z]\<close>, \<open>\d\<close> and \<open>[@$!%*?&]\<close>.\<close>

definition is_lower :: "char \<Rightarrow> bool" where
  "is_lower c = (97 \<le> code c \<and> code c \<le> 122)"

definition is_upper :: "char \<Rightarrow> bool" where
  "is_upper c = (65 \<le> code c \<and> code c \<le> 90)"

definition is_digit :: "char \<Rightarrow> bool" where
  "is_digit c = (48 \<le> code c \<and> code c \<le> 57)"

definition is_special :: "char \<Rightarrow> bool" where
  "is_special c = (c \<in> set ''@$!%*?&'')"

text \<open>
  The class \<open>\s\<close>, which is also what \<open>String.prototype.trim\<close> removes: TAB, LF, VT,
  FF, CR, SPACE and NO-BREAK SPACE (the white space and line terminators below U+0100).
\<close>

definition is_space :: "char \<Rightarrow> bool" where
  "is_space c = (code c \<in> {9, 10, 11, 12, 13, 32, 160})"

text \<open>The line terminators, which \<open>.\<close> does not match (no \<open>s\<close> flag): LF and CR.\<close>

definition line_terminator :: "char \<Rightarrow> bool" where
  "line_terminator c = (code c = 10 \<or> code c = 13)"

text \<open>
  \<open>String.prototype.toLowerCase\<close> on one code unit: \<open>A-Z\<close> and U+00C0 to U+00DE
  but U+00D7 (the multiplication sign) move up by 32.
\<close>

definition lower_char :: "char \<Rightarrow> char" where
  "lower_char c =
     (if (65 \<le> code c \<and> code c \<le> 90) \<or> (192 \<le> code c \<and> code c \<le> 222 \<and> code c \<noteq> 215)
      then char_of (code c + 32) else c)"

definition toLowerCase :: "string \<Rightarrow> string" where
  "toLowerCase s = map lower_char s"

definition trim :: "string \<Rightarrow> string" where
  "trim s = rev (dropWhile is_space (rev (dropWhile is_space s)))"

section \<open>The libraries the program calls\<close>

text \<open>
  What the program calls and does not define is a parameter: \<open>isEmail\<close> of validator.js
  (behind \<open>@IsEmail\<close>), the conversions \<open>Number(s)\<close> and \<open>String(n)\<close> of the runtime,
  \<open>bcrypt.hash\<close> (plaintext, rounds and the salt it draws), \<open>bcrypt.compare\<close>
  (plaintext and digest), the signature that \<open>JwtService.sign\<close> computes with the
  server's secret, and the verification of a token (signature and expiry) that gives
  its payload or nothing.
\<close>

record JwtPayload =
  sub :: string
  jwt_email :: string

text \<open>
  A signed token is its payload and the signature over it; decoding gives the payload
  back. The issue and expiry times the library adds are not modelled.
\<close>

datatype jwt = Jwt JwtPayload string

record jslib =
  isEmail :: "string \<Rightarrow> bool"
  StringToNumber :: "string \<Rightarrow> jsnum"
  NumberToString :: "jsnum \<Rightarrow> string"
  bcrypt_hash :: "string \<Rightarrow> nat \<Rightarrow> string \<Rightarrow> string"
  bcrypt_compare :: "string \<Rightarrow> string \<Rightarrow> bool"
  hmac :: "JwtPayload \<Rightarrow> string"
  jwt_verify :: "jwt \<Rightarrow> JwtPayload option"

section \<open>The validation pipe\<close>

subsection \<open>Transformation to the DTO instance\<close>

text \<open>
  \<open>transform: true\<close> with \<open>enableImplicitConversion: true\<close> (main.ts): a property the
  body has is converted to the declared type of the DTO's field. For a \<open>string\<close> field
  that is \<open>String(v)\<close> and for a \<open>number\<close> field \<open>Number(v)\<close>; \<open>null\<close> stays as it
  is, and an array stays an array, its elements converted one after the other. An
  object parsed from JSON converts through the \<open>toString\<close> it inherits, to
  \<open>[object Object]\<close> and from there to not-a-number; when it has a property
  \<open>toString\<close> of its own, which is no function, the conversion throws a TypeError.
\<close>

fun convert_String :: "jslib \<Rightarrow> jsval \<Rightarrow> js_error + jsval"
  and convert_String_each :: "jslib \<Rightarrow> jsval list \<Rightarrow> js_error + jsval list" where
  "convert_String lib (JArr vs) =
     (case convert_String_each lib vs of Inl e \<Rightarrow> Inl e | Inr ws \<Rightarrow> Inr (JArr ws))"
| "convert_String lib JUndefined = Inr JUndefined"
| "convert_String lib JNull = Inr JNull"
| "convert_String lib (JBool b) = Inr (JStr (if b then ''true'' else ''false''))"
| "convert_String lib (JNum n) = Inr (JStr (NumberToString lib n))"
| "convert_String lib (JStr s) = Inr (JStr s)"
| "convert_String lib (JObj kvs) =
     (if list_ex (\<lambda>kv. fst kv = ''toString'') kvs then Inl TypeError
      else Inr (JStr ''[object Object]''))"
| "convert_String_each lib [] = Inr []"
| "convert_String_each lib (v # vs) =
     (case convert_String lib v of
        Inl e \<Rightarrow> Inl e
      | Inr w \<Rightarrow>
          (case convert_String_each lib vs of Inl e \<Rightarrow> Inl e | Inr ws \<Rightarrow> Inr (w # ws)))"

fun convert_Number :: "jslib \<Rightarrow> jsval \<Rightarrow> js_error + jsval"
  and convert_Number_each :: "jslib \<Rightarrow> jsval list \<Rightarrow> js_error + jsval list" where
  "convert_Number lib (JArr vs) =
     (case convert_Number_each lib vs of Inl e \<Rightarrow> Inl e | Inr ws \<Rightarrow> Inr (JArr ws))"
| "convert_Number lib JUndefined = Inr JUndefined"
| "convert_Number lib JNull = Inr JNull"
| "convert_Number lib (JBool b) = Inr (JNum (Fin (if b then 1 else 0)))"
| "convert_Number lib (JNum n) = Inr (JNum n)"
| "convert_Number lib (JStr s) = Inr (JNum (StringToNumber lib s))"
| "convert_Number lib (JObj kvs) =
     (if list_ex (\<lambda>kv. fst kv = ''toString'') kvs then Inl TypeError
      else Inr (JNum NaN))"
| "convert_Number_each lib [] = Inr []"
| "convert_Number_each lib (v # vs) =
     (case convert_Number lib v of
        Inl e \<Rightarrow> Inl e
      | Inr w \<Rightarrow>
          (case convert_Number_each lib vs of Inl e \<Rightarrow> Inl e | Inr ws \<Rightarrow> Inr (w # ws)))"

text \<open>
  The \<open>@Transform\<close> functions, applied after the conversion to a property the body has:
  \<open>value?.trim()\<close> for the name and \<open>value?.toLowerCase().trim()\<close> for the email.
  \<open>?.\<close> gives \<open>undefined\<close> on \<open>null\<close> and \<open>undefined\<close>. On any other value that is no
  string the method is missing and the call throws a TypeError; after the conversion
  such a value is an array.
\<close>

fun transform_name :: "jsval \<Rightarrow> js_error + jsval" where
  "transform_name (JStr s) = Inr (JStr (trim s))"
| "transform_name JNull = Inr JUndefined"
| "transform_name JUndefined = Inr JUndefined"
| "transform_name v = Inl TypeError"

fun transform_email :: "jsval \<Rightarrow> js_error + jsval" where
  "transform_email (JStr s) = Inr (JStr (trim (toLowerCase s)))"
| "transform_email JNull = Inr JUndefined"
| "transform_email JUndefined = Inr JUndefined"
| "transform_email v = Inl TypeError"

text \<open>
  The value of one field of the instance: \<open>undefined\<close> when the body has no such
  property, else the property's value converted and then transformed.
\<close>

definition field :: "(jsval \<Rightarrow> js_error + jsval) \<Rightarrow> (jsval \<Rightarrow> js_error + jsval) \<Rightarrow> body
    \<Rightarrow> string \<Rightarrow> js_error + jsval" where
  "field convert transform b k =
     (case map_of b k of
        None \<Rightarrow> Inr JUndefined
      | Some v \<Rightarrow> (case convert v of Inl e \<Rightarrow> Inl e | Inr w \<Rightarrow> transform w))"

text \<open>The instance of \<open>CreateUserDto\<close> the validator sees: any value in any field.\<close>

record CreateUserDto_instance =
  i_name :: jsval
  i_email :: jsval
  i_password :: jsval
  i_age :: jsval

definition plainToInstance :: "jslib \<Rightarrow> body \<Rightarrow> js_error + CreateUserDto_instance" where
  "plainToInstance lib b =
     (case field (convert_String lib) transform_name b ''name'' of
        Inl e \<Rightarrow> Inl e
      | Inr n \<Rightarrow>
     (case field (convert_String lib) transform_email b ''email'' of
        Inl e \<Rightarrow> Inl e
      | Inr m \<Rightarrow>
     (case field (convert_String lib) Inr b ''password'' of
        Inl e \<Rightarrow> Inl e
      | Inr p \<Rightarrow>
     (case field (convert_Number lib) Inr b ''age'' of
        Inl e \<Rightarrow> Inl e
      | Inr a \<Rightarrow> Inr \<lparr>i_name = n, i_email = m, i_password = p, i_age = a\<rparr>))))"

text \<open>
  The transformation does not copy every property of the body to the instance: it
  passes over \<open>__proto__\<close> and \<open>constructor\<close>, and over a property whose name is
  that of a method the instance inherits from \<open>Object.prototype\<close>.
\<close>

definition skipped_properties :: "string list" where
  "skipped_properties =
     [''__proto__'', ''constructor'', ''__defineGetter__'', ''__defineSetter__'',
      ''hasOwnProperty'', ''__lookupGetter__'', ''__lookupSetter__'', ''isPrototypeOf'',
      ''propertyIsEnumerable'', ''toString'', ''valueOf'', ''toLocaleString'']"

subsection \<open>The decorators of class-validator\<close>

fun IsString :: "jsval \<Rightarrow> bool" where
  "IsString (JStr s) = True"
| "IsString v = False"

fun IsNotEmpty :: "jsval \<Rightarrow> bool" where
  "IsNotEmpty (JStr s) = (s \<noteq> [])"
| "IsNotEmpty JNull = False"
| "IsNotEmpty JUndefined = False"
| "IsNotEmpty v = True"

fun MinLength :: "nat \<Rightarrow> jsval \<Rightarrow> bool" where
  "MinLength n (JStr s) = (n \<le> length s)"
| "MinLength n v = False"

fun MaxLength :: "nat \<Rightarrow> jsval \<Rightarrow> bool" where
  "MaxLength n (JStr s) = (length s \<le> n)"
| "MaxLength n v = False"

fun Matches :: "(string \<Rightarrow> bool) \<Rightarrow> jsval \<Rightarrow> bool" where
  "Matches p (JStr s) = p s"
| "Matches p v = False"

fun IsEmail :: "jslib \<Rightarrow> jsval \<Rightarrow> bool" where
  "IsEmail lib (JStr s) = isEmail lib s"
| "IsEmail lib v = False"

text \<open>\<open>IsInt\<close> is \<open>typeof v === 'number' && Number.isInteger(v)\<close>.\<close>

fun IsInt :: "jsval \<Rightarrow> bool" where
  "IsInt (JNum (Fin r)) = (of_int \<lfloor>r\<rfloor> = r)"
| "IsInt v = False"

text \<open>\<open>Min(n)\<close> is \<open>typeof v === 'number' && v >= n\<close>, and \<open>Max(n)\<close> the same with \<open><=\<close>.\<close>

fun Min_rule :: "rat \<Rightarrow> jsval \<Rightarrow> bool" where
  "Min_rule n (JNum (Fin r)) = (n \<le> r)"
| "Min_rule n (JNum PosInf) = True"
| "Min_rule n v = False"

fun Max_rule :: "rat \<Rightarrow> jsval \<Rightarrow> bool" where
  "Max_rule n (JNum (Fin r)) = (r \<le> n)"
| "Max_rule n (JNum NegInf) = True"
| "Max_rule n v = False"

subsection \<open>The two regular expressions\<close>

text \<open>\<open>/^[a-zA-Z\<dots>\s'-]+$/\<close>, the dots standing for the range U+00C0 to U+00FF.\<close>

definition name_char :: "char \<Rightarrow> bool" where
  "name_char c =
     (is_lower c \<or> is_upper c \<or> (192 \<le> code c \<and> code c \<le> 255) \<or> is_space c
      \<or> c = CHR 0x27 \<or> c = CHR ''-'')"

definition name_pattern :: "string \<Rightarrow> bool" where
  "name_pattern s = (s \<noteq> [] \<and> list_all name_char s)"

text \<open>
  \<open>/^(?=.*[a-z])(?=.*[A-Z])(?=.*\d)(?=.*[@$!%*?&])[A-Za-z\d@$!%*?&]/\<close>. A lookahead
  \<open>(?=.*[C])\<close> at the start holds when a character of C stands after characters \<open>.\<close>
  matches, that is before the first line terminator. After the four lookaheads the
  pattern reads one character of the class, and nothing anchors the end.
\<close>

definition lookahead :: "(char \<Rightarrow> bool) \<Rightarrow> string \<Rightarrow> bool" where
  "lookahead C s = list_ex C (takeWhile (\<lambda>c. \<not> line_terminator c) s)"

definition password_class :: "char \<Rightarrow> bool" where
  "password_class c = (is_upper c \<or> is_lower c \<or> is_digit c \<or> is_special c)"

definition password_pattern :: "string \<Rightarrow> bool" where
  "password_pattern s =
     (lookahead is_lower s \<and> lookahead is_upper s \<and> lookahead is_digit s
      \<and> lookahead is_special s \<and> (case s of [] \<Rightarrow> False | c # cs \<Rightarrow> password_class c))"

subsection \<open>The rules of CreateUserDto\<close>

text \<open>
  One message for each decorator of the DTO, and one for each property the body has and
  the DTO does not declare. The French texts of the source are, in this order of the
  constructors after the first: the default "name must be a string"; "Le nom est
  obligatoire"; "Le nom doit contenir au moins 2 caracteres"; "Le nom ne peut pas
  depasser 50 caracteres"; "Le nom ne peut contenir que des lettres, espaces, tirets et
  apostrophes"; "Veuillez fournir une adresse email valide"; "L'email est obligatoire";
  the default "password must be a string"; "Le mot de passe est obligatoire"; "Le mot
  de passe doit contenir au moins 8 caracteres"; "Le mot de passe ne peut pas depasser
  128 caracteres"; "Le mot de passe doit contenir au moins une lettre minuscule, une
  lettre majuscule, un chiffre et un caractere special"; "L'age doit etre un nombre
  entier"; "L'age minimum est de 13 ans"; "L'age maximum est de 120 ans"; "L'age est
  obligatoire".
\<close>

datatype message =
    PropertyShouldNotExist string
  | NameIsString | NameRequired | NameMinLength | NameMaxLength | NamePattern
  | EmailInvalid | EmailRequired
  | PasswordIsString | PasswordRequired | PasswordMinLength | PasswordMaxLength
  | PasswordPattern
  | AgeIsInt | AgeMin | AgeMax | AgeRequired

type_synonym rule = "message \<times> (jsval \<Rightarrow> bool)"

text \<open>The decorators of each field, in the order the source writes them.\<close>

definition name_rules :: "rule list" where
  "name_rules =
     [(NameIsString, IsString), (NameRequired, IsNotEmpty), (NameMinLength, MinLength 2),
      (NameMaxLength, MaxLength 50), (NamePattern, Matches name_pattern)]"

definition email_rules :: "jslib \<Rightarrow> rule list" where
  "email_rules lib = [(EmailInvalid, IsEmail lib), (EmailRequired, IsNotEmpty)]"

definition password_rules :: "rule list" where
  "password_rules =
     [(PasswordIsString, IsString), (PasswordRequired, IsNotEmpty),
      (PasswordMinLength, MinLength 8), (PasswordMaxLength, MaxLength 128),
      (PasswordPattern, Matches password_pattern)]"

definition age_rules :: "rule list" where
  "age_rules =
     [(AgeIsInt, IsInt), (AgeMin, Min_rule 13), (AgeMax, Max_rule 120),
      (AgeRequired, IsNotEmpty)]"

text \<open>
  The validator runs every decorator of a property and keeps the message of each one
  that fails. TypeScript applies the decorators of a property from the last written to
  the first, and that is the order the validator runs them in.
\<close>

definition failed :: "rule list \<Rightarrow> jsval \<Rightarrow> message list" where
  "failed rules v = map fst (filter (\<lambda>r. \<not> snd r v) (rev rules))"

text \<open>
  \<open>whitelist: true\<close> with \<open>forbidNonWhitelisted: true\<close>: a property of the instance
  that no field of the DTO declares is an error of its own. The properties of the
  instance are those of the body the transformation did not pass over.
\<close>

definition nonWhitelisted :: "string list \<Rightarrow> body \<Rightarrow> string list" where
  "nonWhitelisted declared b =
     filter (\<lambda>k. k \<notin> set declared \<and> k \<notin> set skipped_properties) (map fst b)"

definition CreateUserDto_properties :: "string list" where
  "CreateUserDto_properties = [''name'', ''email'', ''password'', ''age'']"

definition validate :: "jslib \<Rightarrow> body \<Rightarrow> CreateUserDto_instance \<Rightarrow> message list" where
  "validate lib b inst =
     map PropertyShouldNotExist (nonWhitelisted CreateUserDto_properties b)
     @ failed name_rules (i_name inst)
     @ failed (email_rules lib) (i_email inst)
     @ failed password_rules (i_password inst)
     @ failed age_rules (i_age inst)"

text \<open>The DTO the controller receives once no rule has failed.\<close>

record CreateUserDto =
  dto_name :: string
  dto_email :: string
  dto_password :: string
  dto_age :: int

fun string_of :: "jsval \<Rightarrow> string" where
  "string_of (JStr s) = s"
| "string_of v = []"

fun int_of :: "jsval \<Rightarrow> int" where
  "int_of (JNum (Fin r)) = \<lfloor>r\<rfloor>"
| "int_of v = 0"

text \<open>
  What a request can end in. An error thrown inside the pipe or by the database, which
  the program does not catch, is the framework's internal server error.
\<close>

datatype unauthorized = InvalidCredentials | TokenRejected | UserNotFound

datatype HttpException =
    BadRequestException "message list"
  | ConflictException
  | UnauthorizedException unauthorized
  | NotFoundException
  | InternalServerError

definition ValidationPipe :: "jslib \<Rightarrow> body \<Rightarrow> HttpException + CreateUserDto" where
  "ValidationPipe lib b =
     (case plainToInstance lib b of
        Inl e \<Rightarrow> Inl InternalServerError
      | Inr inst \<Rightarrow>
          (let errors = validate lib b inst in
             if errors = []
             then Inr \<lparr>dto_name = string_of (i_name inst), dto_email = string_of (i_email inst),
                       dto_password = string_of (i_password inst),
                       dto_age = int_of (i_age inst)\<rparr>
             else Inl (BadRequestException errors)))"

section \<open>The user table\<close>

text \<open>
  The rows of the \<open>User\<close> model (docs/README.md, Database Schema): \<open>id\<close> is the primary
  key, filled by \<open>cuid()\<close> when a row is created, and \<open>email\<close> is unique. The table is
  the list of its rows in the order they were created.
\<close>

record User =
  user_id :: string
  user_name :: string
  user_email :: string
  user_password :: string
  user_age :: int

record UserResponse =
  r_id :: string
  r_name :: string
  r_email :: string
  r_age :: int

text \<open>\<open>select: {id: true, name: true, email: true, age: true}\<close>.\<close>

definition select_public :: "User \<Rightarrow> UserResponse" where
  "select_public u =
     \<lparr>r_id = user_id u, r_name = user_name u, r_email = user_email u, r_age = user_age u\<rparr>"

definition findUnique_email :: "User list \<Rightarrow> string \<Rightarrow> User option" where
  "findUnique_email t e = find (\<lambda>u. user_email u = e) t"

definition findUnique_id :: "User list \<Rightarrow> string \<Rightarrow> User option" where
  "findUnique_id t i = find (\<lambda>u. user_id u = i) t"


text \<open>
  Modelled from the spec: the generation of the id, which is \<open>cuid()\<close> of the database
  layer and not in the sources. Sections 3 and 4.4: the store generates the id at
  creation, an opaque unique string. The id of a new row is the string the generator
  draws, an argument of the call; it is never the id of a row of the table: should the
  drawn string be taken, the model lengthens it past every id the table has.
\<close>

definition generated_id :: "User list \<Rightarrow> string \<Rightarrow> string" where
  "generated_id t cuid =
     (if list_ex (\<lambda>r. user_id r = cuid) t
      then cuid @ replicate (Suc (foldr (\<lambda>r n. max (length (user_id r)) n) t 0)) (CHR ''c'')
      else cuid)"

text \<open>
  \<open>prisma.user.create\<close>: the new row gets the generated id; the database refuses a
  row whose email another row has, and the program does not catch that error.
\<close>

definition create :: "User list \<Rightarrow> string \<Rightarrow> CreateUserDto \<Rightarrow> string
    \<Rightarrow> HttpException + (User list \<times> UserResponse)" where
  "create t cuid dto hashedPassword =
     (let u = \<lparr>user_id = generated_id t cuid, user_name = dto_name dto,
                user_email = dto_email dto, user_password = hashedPassword,
                user_age = dto_age dto\<rparr>
      in if list_ex (\<lambda>r. user_email r = dto_email dto) t
         then Inl InternalServerError
         else Inr (t @ [u], select_public u))"

section \<open>The token\<close>

definition jwt_sign :: "jslib \<Rightarrow> JwtPayload \<Rightarrow> jwt" where
  "jwt_sign lib payload = Jwt payload (hmac lib payload)"


record TokenResponse =
  access_token :: jwt

section \<open>UserService and UserController\<close>

text \<open>
  A call of the service gives a response or an exception, the table after the call,
  and the calls it made to the table, to bcrypt and to the token service, in order.
\<close>

datatype call =
    Call_findUnique_email string
  | Call_bcrypt_hash string nat
  | Call_create string
  | Call_jwt_sign JwtPayload

record 'a outcome =
  response :: "HttpException + 'a"
  table_after :: "User list"
  calls :: "call list"

definition saltRounds :: nat where
  "saltRounds = 10"

text \<open>
  \<open>UserService.register\<close>, of the version of the service the controller calls. The
  salt bcrypt draws and the id the database draws are arguments of the call.
\<close>

definition register :: "jslib \<Rightarrow> string \<Rightarrow> string \<Rightarrow> User list \<Rightarrow> CreateUserDto
    \<Rightarrow> TokenResponse outcome" where
  "register lib salt cuid t dto =
     (case findUnique_email t (dto_email dto) of
        Some existingUser \<Rightarrow>
          \<lparr>response = Inl ConflictException, table_after = t,
           calls = [Call_findUnique_email (dto_email dto)]\<rparr>
      | None \<Rightarrow>
          (let hashedPassword = bcrypt_hash lib (dto_password dto) saltRounds salt in
           case create t cuid dto hashedPassword of
             Inl e \<Rightarrow>
               \<lparr>response = Inl e, table_after = t,
                calls = [Call_findUnique_email (dto_email dto),
                         Call_bcrypt_hash (dto_password dto) saltRounds,
                         Call_create (dto_email dto)]\<rparr>
           | Inr (t', user) \<Rightarrow>
               (let payload = \<lparr>sub = r_id user, jwt_email = r_email user\<rparr>;
                    token = jwt_sign lib payload
                in \<lparr>response = Inr \<lparr>access_token = token\<rparr>, table_after = t',
                    calls = [Call_findUnique_email (dto_email dto),
                             Call_bcrypt_hash (dto_password dto) saltRounds,
                             Call_create (dto_email dto),
                             Call_jwt_sign payload]\<rparr>)))"


definition getUserById :: "User list \<Rightarrow> string \<Rightarrow> UserResponse option" where
  "getUserById t i = map_option select_public (findUnique_id t i)"

text \<open>
  The routes of \<open>UserController\<close>. The body of \<open>POST /users/register\<close> goes through the
  global validation pipe first; the other two hand the service's value on.
\<close>

definition UserController_register :: "jslib \<Rightarrow> string \<Rightarrow> string \<Rightarrow> User list \<Rightarrow> body
    \<Rightarrow> TokenResponse outcome" where
  "UserController_register lib salt cuid t b =
     (case ValidationPipe lib b of
        Inl e \<Rightarrow> \<lparr>response = Inl e, table_after = t, calls = []\<rparr>
      | Inr dto \<Rightarrow> register lib salt cuid t dto)"


definition UserController_getUserById :: "User list \<Rightarrow> string
    \<Rightarrow> HttpException + UserResponse option" where
  "UserController_getUserById t i = Inr (getUserById t i)"

section \<open>Login\<close>

subsection \<open>The rules of LoginDto\<close>

record LoginDto_instance =
  l_email :: jsval
  l_password :: jsval

record LoginDto =
  login_email :: string
  login_password :: string

definition LoginDto_properties :: "string list" where
  "LoginDto_properties = [''email'', ''password'']"

definition login_password_rules :: "rule list" where
  "login_password_rules = [(PasswordIsString, IsString), (PasswordRequired, IsNotEmpty)]"

definition plainToInstance_login :: "jslib \<Rightarrow> body \<Rightarrow> js_error + LoginDto_instance" where
  "plainToInstance_login lib b =
     (case field (convert_String lib) transform_email b ''email'' of
        Inl e \<Rightarrow> Inl e
      | Inr m \<Rightarrow>
     (case field (convert_String lib) Inr b ''password'' of
        Inl e \<Rightarrow> Inl e
      | Inr p \<Rightarrow> Inr \<lparr>l_email = m, l_password = p\<rparr>))"

definition validate_login :: "jslib \<Rightarrow> body \<Rightarrow> LoginDto_instance \<Rightarrow> message list" where
  "validate_login lib b inst =
     map PropertyShouldNotExist (nonWhitelisted LoginDto_properties b)
     @ failed (email_rules lib) (l_email inst)
     @ failed login_password_rules (l_password inst)"

definition ValidationPipe_login :: "jslib \<Rightarrow> body \<Rightarrow> HttpException + LoginDto" where
  "ValidationPipe_login lib b =
     (case plainToInstance_login lib b of
        Inl e \<Rightarrow> Inl InternalServerError
      | Inr inst \<Rightarrow>
          (let errors = validate_login lib b inst in
             if errors = []
             then Inr \<lparr>login_email = string_of (l_email inst),
                       login_password = string_of (l_password inst)\<rparr>
             else Inl (BadRequestException errors)))"

subsection \<open>AuthService\<close>

text \<open>
  Modelled from the spec: \<open>AuthService.login\<close>, which the sources do not hold (they
  hold \<open>LoginDto\<close> and the payload types). Section 4.4, Login: look the user up by
  the normalized email, not found fails with InvalidCredentials; verify the password
  against the stored hash, mismatch fails with InvalidCredentials; issue the token and
  return it.
\<close>

definition login :: "jslib \<Rightarrow> User list \<Rightarrow> LoginDto \<Rightarrow> HttpException + TokenResponse" where
  "login lib t dto =
     (case findUnique_email t (login_email dto) of
        None \<Rightarrow> Inl (UnauthorizedException InvalidCredentials)
      | Some user \<Rightarrow>
          if bcrypt_compare lib (login_password dto) (user_password user)
          then Inr \<lparr>access_token =
                     jwt_sign lib \<lparr>sub = user_id user, jwt_email = user_email user\<rparr>\<rparr>
          else Inl (UnauthorizedException InvalidCredentials))"


text \<open>
  Modelled from the spec: the route \<open>POST /auth/login\<close> of section 6, whose controller
  the sources do not hold. The body goes through the global validation pipe with the
  rules of \<open>LoginDto\<close>, then to the service.
\<close>

definition AuthController_login :: "jslib \<Rightarrow> User list \<Rightarrow> body
    \<Rightarrow> HttpException + TokenResponse" where
  "AuthController_login lib t b =
     (case ValidationPipe_login lib b of
        Inl e \<Rightarrow> Inl e
      | Inr dto \<Rightarrow> login lib t dto)"

section \<open>Notions of the specification\<close>

text \<open>The normalized form of an email: lowercased, then trimmed.\<close>

definition normalized :: "string \<Rightarrow> string" where
  "normalized e = trim (toLowerCase e)"

text \<open>
  The tables the program can reach: it starts with no row, and only a registration
  request changes it.
\<close>

inductive reachable :: "jslib \<Rightarrow> User list \<Rightarrow> bool" for lib :: jslib where
  reachable_empty: "reachable lib []"
| reachable_register:
    "reachable lib t \<Longrightarrow> reachable lib (table_after (UserController_register lib salt cuid t b))"

text \<open>
  The rules of section 4.1 in the words of the specification, on the raw mapping of
  field names to values. The values the rules speak of: the name, a string, trimmed;
  the email, a string, lowercased and trimmed; the password, a string as it is; the
  age, a number, or the number a numeric-looking string stands for.
\<close>

fun present_string :: "jsval option \<Rightarrow> string option" where
  "present_string (Some (JStr s)) = Some s"
| "present_string v = None"

fun present_number :: "jslib \<Rightarrow> jsval option \<Rightarrow> jsnum option" where
  "present_number lib (Some (JNum n)) = Some n"
| "present_number lib (Some (JStr s)) = Some (StringToNumber lib s)"
| "present_number lib v = None"

definition spec_name :: "body \<Rightarrow> string option" where
  "spec_name b = map_option trim (present_string (map_of b ''name''))"

definition spec_email :: "body \<Rightarrow> string option" where
  "spec_email b = map_option normalized (present_string (map_of b ''email''))"

definition spec_password :: "body \<Rightarrow> string option" where
  "spec_password b = present_string (map_of b ''password'')"

definition spec_age :: "jslib \<Rightarrow> body \<Rightarrow> jsnum option" where
  "spec_age lib b = present_number lib (map_of b ''age'')"

text \<open>A rule holds of a field when the field has a value and the value meets it.\<close>

fun holds :: "('a \<Rightarrow> bool) \<Rightarrow> 'a option \<Rightarrow> bool" where
  "holds P (Some x) = P x"
| "holds P None = False"

text \<open>
  Letters (the accented ones are those of U+00C0 to U+00FF, which but for the
  multiplication and the division sign are letters), the space, the hyphen and the
  apostrophe.
\<close>

definition spec_name_char :: "char \<Rightarrow> bool" where
  "spec_name_char c =
     (is_lower c \<or> is_upper c
      \<or> (192 \<le> code c \<and> code c \<le> 255 \<and> code c \<noteq> 215 \<and> code c \<noteq> 247)
      \<or> c = CHR '' '' \<or> c = CHR ''-'' \<or> c = CHR 0x27)"

fun spec_integer :: "jsnum \<Rightarrow> bool" where
  "spec_integer (Fin r) = (of_int \<lfloor>r\<rfloor> = r)"
| "spec_integer n = False"

fun spec_age_range :: "jsnum \<Rightarrow> bool" where
  "spec_age_range (Fin r) = (13 \<le> r \<and> r \<le> 120)"
| "spec_age_range n = False"

text \<open>
  The rules as section 4.1 lists them, one for each clause between its semicolons.
  Name: required, non-empty after trim; length in [2,50]; the pattern. Email: required;
  syntactically valid. Password: required; length in [8,128]; at least one lowercase
  letter, one uppercase letter, one digit and one symbol. Age: required; integer; in
  [13,120].
\<close>

definition spec_rules :: "jslib \<Rightarrow> body \<Rightarrow> bool list" where
  "spec_rules lib b =
     [holds (\<lambda>n. n \<noteq> []) (spec_name b),
      holds (\<lambda>n. 2 \<le> length n \<and> length n \<le> 50) (spec_name b),
      holds (list_all spec_name_char) (spec_name b),
      holds (\<lambda>e. e \<noteq> []) (spec_email b),
      holds (isEmail lib) (spec_email b),
      holds (\<lambda>p. True) (spec_password b),
      holds (\<lambda>p. 8 \<le> length p \<and> length p \<le> 128) (spec_password b),
      holds (\<lambda>p. list_ex is_lower p \<and> list_ex is_upper p \<and> list_ex is_digit p
                \<and> list_ex is_special p) (spec_password b),
      holds (\<lambda>n. True) (spec_age lib b),
      holds spec_integer (spec_age lib b),
      holds spec_age_range (spec_age lib b)]"

text \<open>Unknown fields are rejected: each field outside the schema is a violation.\<close>

definition spec_unknown :: "body \<Rightarrow> string list" where
  "spec_unknown b = filter (\<lambda>k. k \<notin> set [''name'', ''email'', ''password'', ''age'']) (map fst b)"

definition spec_violated :: "jslib \<Rightarrow> body \<Rightarrow> nat" where
  "spec_violated lib b = length (filter Not (spec_rules lib b)) + length (spec_unknown b)"

definition satisfies_4_1 :: "jslib \<Rightarrow> body \<Rightarrow> bool" where
  "satisfies_4_1 lib b = (spec_violated lib b = 0)"

text \<open>
  The password rule in the words of the specification: a present string of length 8 to
  128 with at least one lowercase letter, one uppercase letter, one digit and one of
  the symbols.
\<close>

fun spec_password_ok :: "jsval \<Rightarrow> bool" where
  "spec_password_ok (JStr s) =
     (8 \<le> length s \<and> length s \<le> 128 \<and> list_ex is_lower s \<and> list_ex is_upper s
      \<and> list_ex is_digit s \<and> list_ex is_special s)"
| "spec_password_ok v = False"

section \<open>Sample data\<close>

text \<open>
  A library for the examples: it accepts the two addresses the examples use (validator.js
  accepts both), converts the one numeric string they use, and stands in for bcrypt and
  the signature with functions that are easy to read.
\<close>

definition sample_lib :: jslib where
  "sample_lib =
     \<lparr>isEmail = (\<lambda>s. s = ''a@b.com'' \<or> s = ''jean@example.com''),
      StringToNumber = (\<lambda>s. if s = ''30'' then Fin 30 else NaN),
      NumberToString = (\<lambda>n. ''NaN''),
      bcrypt_hash = (\<lambda>p r s. s @ p),
      bcrypt_compare = (\<lambda>p d. p = drop 4 d),
      hmac = (\<lambda>p. ''signature''),
      jwt_verify = (\<lambda>k. case k of Jwt p s \<Rightarrow> if s = ''signature'' then Some p else None)\<rparr>"

definition jean_body :: body where
  "jean_body =
     [(''name'', JStr ''Jean Dupont''), (''email'', JStr ''Jean@Example.COM''),
      (''password'', JStr ''Secure1!abc''), (''age'', JNum (Fin 30))]"

definition jean :: User where
  "jean = \<lparr>user_id = ''c1'', user_name = ''Jean Dupont'', user_email = ''jean@example.com'',
           user_password = ''saltSecure1!abc'', user_age = 30\<rparr>"

text \<open>Two login bodies, a body with a boolean name, and a body with one property more.\<close>

definition unknown_login_body :: body where
  "unknown_login_body = [(''email'', JStr ''a@b.com''), (''password'', JStr ''Secure1!abc'')]"

definition wrong_password_body :: body where
  "wrong_password_body = [(''email'', JStr ''jean@example.com''), (''password'', JStr ''wrong'')]"



definition shouted_jean_body :: body where
  "shouted_jean_body =
     [(''name'', JStr ''Jean Dupont''), (''email'', JStr ''  JEAN@Example.com ''),
      (''password'', JStr ''Secure1!abc''), (''age'', JNum (Fin 30))]"

definition short_name_body :: body where
  "short_name_body =
     [(''name'', JStr ''J''), (''email'', JStr ''a@b.com''),
      (''password'', JStr ''Secure1!abc''), (''age'', JNum (Fin 30))]"

definition short_name_body_reordered :: body where
  "short_name_body_reordered =
     [(''age'', JNum (Fin 30)), (''password'', JStr ''Secure1!abc''),
      (''email'', JStr ''a@b.com''), (''name'', JStr ''J'')]"

definition four_errors_body :: body where
  "four_errors_body =
     [(''name'', JStr ''J''), (''email'', JStr ''invalid-email''),
      (''password'', JStr ''password''), (''age'', JNum (Fin 12))]"

text \<open>
  A body without a password, a body whose name is an array, the example body with a
  property named \<open>toString\<close>, and a body with an array name and one property more.
\<close>

definition missing_password_body :: body where
  "missing_password_body =
     [(''name'', JStr ''Jean Dupont''), (''email'', JStr ''jean@example.com''),
      (''age'', JNum (Fin 30))]"

definition array_name_body :: body where
  "array_name_body =
     [(''name'', JArr [JStr ''Jean Dupont'']), (''email'', JStr ''jean@example.com''),
      (''password'', JStr ''Secure1!abc''), (''age'', JNum (Fin 30))]"

definition toString_body :: body where
  "toString_body = jean_body @ [(''toString'', JStr ''should be rejected'')]"

definition array_name_extra_body :: body where
  "array_name_extra_body = array_name_body @ [(''extraProperty'', JStr ''should be rejected'')]"

definition hash_first_body :: body where
  "hash_first_body =
     [(''name'', JStr ''Jean Dupont''), (''email'', JStr ''jean@example.com''),
      (''password'', JStr ''#Aa1@efgh''), (''age'', JNum (Fin 30))]"

section \<open>Facts about the rules and the service\<close>

lemmas char_class_defs =
  code_def is_lower_def is_upper_def is_digit_def is_special_def is_space_def
  line_terminator_def password_class_def name_char_def

lemma failed_Nil: "(failed rules v = []) = list_all (\<lambda>r. snd r v) rules"
  by (induction rules) (auto simp: failed_def)

lemma password_passes:
  "(failed password_rules v = []) =
     (\<exists>s. v = JStr s \<and> 8 \<le> length s \<and> length s \<le> 128 \<and> password_pattern s)"
  by (cases v) (auto simp: failed_Nil password_rules_def)

lemma lookahead_prefix:
  "list_ex C p \<Longrightarrow> \<not> list_ex line_terminator p \<Longrightarrow> lookahead C (p @ t)"
  by (induction p) (auto simp: lookahead_def)

lemma lookahead_append: "lookahead C s \<Longrightarrow> lookahead C (s @ t)"
  by (induction s) (auto simp: lookahead_def)


lemma find_None_image: "(find (\<lambda>u. f u = k) t = None) = (k \<notin> f ` set t)"
  by (auto simp: find_None_iff)



lemma generated_id_unused: "cuid \<notin> user_id ` set t \<Longrightarrow> generated_id t cuid = cuid"
  by (auto simp: generated_id_def list_ex_iff)

lemma create_fresh:
  "dto_email dto \<notin> user_email ` set t \<Longrightarrow>
   create t cuid dto h =
     Inr (t @ [\<lparr>user_id = generated_id t cuid, user_name = dto_name dto,
                 user_email = dto_email dto, user_password = h, user_age = dto_age dto\<rparr>],
          \<lparr>r_id = generated_id t cuid, r_name = dto_name dto, r_email = dto_email dto,
           r_age = dto_age dto\<rparr>)"
proof -
  assume "dto_email dto \<notin> user_email ` set t"
  then have "\<not> list_ex (\<lambda>r. user_email r = dto_email dto) t"
    by (force simp: list_ex_iff)
  then show ?thesis
    by (simp add: create_def select_public_def Let_def)
qed

lemma register_fresh:
  assumes "dto_email dto \<notin> user_email ` set t"
  shows "register lib salt cuid t dto =
     \<lparr>response = Inr \<lparr>access_token =
         jwt_sign lib \<lparr>sub = generated_id t cuid, jwt_email = dto_email dto\<rparr>\<rparr>,
      table_after = t @ [\<lparr>user_id = generated_id t cuid, user_name = dto_name dto,
                 user_email = dto_email dto,
                 user_password = bcrypt_hash lib (dto_password dto) saltRounds salt,
                 user_age = dto_age dto\<rparr>],
      calls = [Call_findUnique_email (dto_email dto),
               Call_bcrypt_hash (dto_password dto) saltRounds,
               Call_create (dto_email dto),
               Call_jwt_sign \<lparr>sub = generated_id t cuid, jwt_email = dto_email dto\<rparr>]\<rparr>"
proof -
  have "findUnique_email t (dto_email dto) = None"
    using assms by (simp add: findUnique_email_def find_None_image)
  then show ?thesis
    by (simp add: register_def create_fresh [OF assms] Let_def)
qed

lemma register_conflict:
  "dto_email dto \<in> user_email ` set t \<Longrightarrow>
   register lib salt cuid t dto =
     \<lparr>response = Inl ConflictException, table_after = t,
      calls = [Call_findUnique_email (dto_email dto)]\<rparr>"
proof -
  assume "dto_email dto \<in> user_email ` set t"
  then have "findUnique_email t (dto_email dto) \<noteq> None"
    by (simp add: findUnique_email_def find_None_image)
  then obtain existingUser where "findUnique_email t (dto_email dto) = Some existingUser"
    by blast
  then show ?thesis
    by (simp add: register_def)
qed

lemma register_conflict_iff:
  "(response (register lib salt cuid t dto) = Inl ConflictException)
     = (dto_email dto \<in> user_email ` set t)"
proof (cases "dto_email dto \<in> user_email ` set t")
  case True
  then show ?thesis by (simp add: register_conflict)
next
  case False
  then show ?thesis by (simp add: register_fresh)
qed

lemma register_table_after:
  "table_after (register lib salt cuid t dto) = t
   \<or> (dto_email dto \<notin> user_email ` set t
      \<and> table_after (register lib salt cuid t dto) =
          t @ [\<lparr>user_id = generated_id t cuid, user_name = dto_name dto,
                 user_email = dto_email dto,
                 user_password = bcrypt_hash lib (dto_password dto) saltRounds salt,
                 user_age = dto_age dto\<rparr>])"
  by (cases "dto_email dto \<in> user_email ` set t") (simp_all add: register_conflict register_fresh)

lemma field_Inr:
  "field convert transform b k = Inr w \<longleftrightarrow>
     (map_of b k = None \<and> w = JUndefined)
     \<or> (\<exists>v x. map_of b k = Some v \<and> convert v = Inr x \<and> transform x = Inr w)"
  by (auto simp: field_def split: option.splits sum.splits)

lemma plainToInstance_Inr:
  "plainToInstance lib b = Inr inst \<longleftrightarrow>
     field (convert_String lib) transform_name b ''name'' = Inr (i_name inst)
     \<and> field (convert_String lib) transform_email b ''email'' = Inr (i_email inst)
     \<and> field (convert_String lib) Inr b ''password'' = Inr (i_password inst)
     \<and> field (convert_Number lib) Inr b ''age'' = Inr (i_age inst)"
  by (cases inst) (auto simp: plainToInstance_def split: sum.splits)


lemma ValidationPipe_Inr:
  "ValidationPipe lib b = Inr dto \<longleftrightarrow>
     (\<exists>inst. plainToInstance lib b = Inr inst \<and> validate lib b inst = []
        \<and> dto = \<lparr>dto_name = string_of (i_name inst), dto_email = string_of (i_email inst),
                 dto_password = string_of (i_password inst), dto_age = int_of (i_age inst)\<rparr>)"
  by (auto simp: ValidationPipe_def Let_def split: sum.splits)


lemma ValidationPipe_cases:
  "ValidationPipe lib b = Inl InternalServerError \<and> plainToInstance lib b = Inl TypeError
   \<or> (\<exists>inst. plainToInstance lib b = Inr inst \<and> validate lib b inst \<noteq> []
        \<and> ValidationPipe lib b = Inl (BadRequestException (validate lib b inst)))
   \<or> (\<exists>dto. ValidationPipe lib b = Inr dto)"
proof (cases "plainToInstance lib b")
  case (Inl e)
  then show ?thesis by (cases e) (simp add: ValidationPipe_def)
next
  case (Inr inst)
  then show ?thesis by (simp add: ValidationPipe_def Let_def)
qed

lemma ValidationPipe_login_cases:
  "ValidationPipe_login lib b = Inl InternalServerError
   \<or> (\<exists>inst. plainToInstance_login lib b = Inr inst \<and> validate_login lib b inst \<noteq> []
        \<and> ValidationPipe_login lib b = Inl (BadRequestException (validate_login lib b inst)))
   \<or> (\<exists>dto. ValidationPipe_login lib b = Inr dto)"
  by (cases "plainToInstance_login lib b") (simp_all add: ValidationPipe_login_def Let_def)

lemma validate_Nil:
  "validate lib b inst = [] \<longleftrightarrow>
     nonWhitelisted CreateUserDto_properties b = []
     \<and> failed name_rules (i_name inst) = []
     \<and> failed (email_rules lib) (i_email inst) = []
     \<and> failed password_rules (i_password inst) = []
     \<and> failed age_rules (i_age inst) = []"
  by (simp add: validate_def)

lemma jean_dto:
  "ValidationPipe sample_lib jean_body =
     Inr \<lparr>dto_name = ''Jean Dupont'', dto_email = ''jean@example.com'',
          dto_password = ''Secure1!abc'', dto_age = 30\<rparr>"
  by code_simp

lemma jean_registered:
  "UserController_register sample_lib ''salt'' ''c1'' [] jean_body =
     \<lparr>response = Inr \<lparr>access_token =
          Jwt \<lparr>sub = ''c1'', jwt_email = ''jean@example.com''\<rparr> ''signature''\<rparr>,
      table_after = [jean],
      calls = [Call_findUnique_email ''jean@example.com'', Call_bcrypt_hash ''Secure1!abc'' 10,
               Call_create ''jean@example.com'',
               Call_jwt_sign \<lparr>sub = ''c1'', jwt_email = ''jean@example.com''\<rparr>]\<rparr>"
  by code_simp

lemma unknown_login_dto:
  "ValidationPipe_login sample_lib unknown_login_body =
     Inr \<lparr>login_email = ''a@b.com'', login_password = ''Secure1!abc''\<rparr>"
  by code_simp

lemma wrong_password_dto:
  "ValidationPipe_login sample_lib wrong_password_body =
     Inr \<lparr>login_email = ''jean@example.com'', login_password = ''wrong''\<rparr>"
  by code_simp


lemma toString_dto:
  "ValidationPipe sample_lib toString_body =
     Inr \<lparr>dto_name = ''Jean Dupont'', dto_email = ''jean@example.com'',
          dto_password = ''Secure1!abc'', dto_age = 30\<rparr>"
  by code_simp

lemma array_name_extra_500:
  "ValidationPipe sample_lib array_name_extra_body = Inl InternalServerError"
  by code_simp

lemma IsString_iff: "IsString v \<longleftrightarrow> (\<exists>s. v = JStr s)"
  by (cases v) simp_all

lemma IsEmail_JStr: "IsEmail lib v \<Longrightarrow> \<exists>s. v = JStr s"
  by (cases v) simp_all

lemma IsInt_iff: "IsInt v \<longleftrightarrow> (\<exists>n. v = JNum (Fin (of_int n)))"
proof (cases v)
  case (JNum x)
  then show ?thesis by (cases x) (auto intro: sym)
qed simp_all

lemma transform_name_JStr:
  "transform_name x = Inr (JStr s) \<Longrightarrow> \<exists>y. x = JStr y \<and> s = trim y"
  by (cases x) auto

lemma transform_email_JStr:
  "transform_email x = Inr (JStr s) \<Longrightarrow> \<exists>y. x = JStr y \<and> s = trim (toLowerCase y)"
  by (cases x) auto

lemma name_field:
  assumes "field (convert_String lib) transform_name b ''name'' = Inr i" and "IsString i"
  shows "\<exists>v x. map_of b ''name'' = Some v \<and> convert_String lib v = Inr (JStr x)
           \<and> i = JStr (trim x)"
proof -
  from assms(2) obtain s where s: "i = JStr s"
    by (auto simp: IsString_iff)
  with assms(1) obtain v x where "map_of b ''name'' = Some v" "convert_String lib v = Inr x"
    "transform_name x = Inr (JStr s)"
    by (auto simp: field_Inr)
  then show ?thesis using s transform_name_JStr by blast
qed

lemma email_field:
  assumes "field (convert_String lib) transform_email b ''email'' = Inr i" and "IsEmail lib i"
  shows "\<exists>v x. map_of b ''email'' = Some v \<and> convert_String lib v = Inr (JStr x)
           \<and> i = JStr (trim (toLowerCase x))"
proof -
  from assms(2) obtain s where s: "i = JStr s"
    using IsEmail_JStr by blast
  with assms(1) obtain v x where "map_of b ''email'' = Some v" "convert_String lib v = Inr x"
    "transform_email x = Inr (JStr s)"
    by (auto simp: field_Inr)
  then show ?thesis using s transform_email_JStr by blast
qed

lemma password_field:
  assumes "field (convert_String lib) Inr b ''password'' = Inr i" and "IsString i"
  shows "\<exists>v x. map_of b ''password'' = Some v \<and> convert_String lib v = Inr (JStr x)
           \<and> i = JStr x"
  using assms by (auto simp: IsString_iff field_Inr)

lemma age_field:
  assumes "field (convert_Number lib) Inr b ''age'' = Inr i" and "failed age_rules i = []"
  shows "\<exists>v n. map_of b ''age'' = Some v \<and> convert_Number lib v = Inr (JNum (Fin (of_int n)))
           \<and> i = JNum (Fin (of_int n)) \<and> 13 \<le> n \<and> n \<le> 120"
proof -
  from assms(2) have "IsInt i" and "Min_rule 13 i" and "Max_rule 120 i"
    by (simp_all add: failed_Nil age_rules_def)
  then obtain n where n: "i = JNum (Fin (of_int n))" "13 \<le> n" "n \<le> 120"
    by (auto simp: IsInt_iff)
  moreover from n(1) assms(1) obtain v where "map_of b ''age'' = Some v"
    and "convert_Number lib v = Inr i"
    by (auto simp: field_Inr)
  ultimately show ?thesis by metis
qed

lemma ValidationPipe_fields:
  assumes "ValidationPipe lib b = Inr dto"
  shows "\<exists>vn ve vp va sn se.
           map_of b ''name'' = Some vn \<and> map_of b ''email'' = Some ve
         \<and> map_of b ''password'' = Some vp \<and> map_of b ''age'' = Some va
         \<and> convert_String lib vn = Inr (JStr sn) \<and> dto_name dto = trim sn
         \<and> convert_String lib ve = Inr (JStr se) \<and> dto_email dto = trim (toLowerCase se)
         \<and> convert_String lib vp = Inr (JStr (dto_password dto))
         \<and> convert_Number lib va = Inr (JNum (Fin (of_int (dto_age dto))))"
proof -
  from assms obtain i where i: "plainToInstance lib b = Inr i"
    and v: "validate lib b i = []"
    and d: "dto_name dto = string_of (i_name i)" "dto_email dto = string_of (i_email i)"
      "dto_password dto = string_of (i_password i)" "dto_age dto = int_of (i_age i)"
    by (auto simp: ValidationPipe_Inr)
  from v have n: "IsString (i_name i)"
    and e: "IsEmail lib (i_email i)"
    and p: "IsString (i_password i)"
    and a: "failed age_rules (i_age i) = []"
    by (simp_all add: validate_Nil failed_Nil name_rules_def email_rules_def
        password_rules_def)
  from i have f: "field (convert_String lib) transform_name b ''name'' = Inr (i_name i)"
    "field (convert_String lib) transform_email b ''email'' = Inr (i_email i)"
    "field (convert_String lib) Inr b ''password'' = Inr (i_password i)"
    "field (convert_Number lib) Inr b ''age'' = Inr (i_age i)"
    by (simp_all add: plainToInstance_Inr)
  from name_field [OF f(1) n] obtain vn sn where
    "map_of b ''name'' = Some vn" "convert_String lib vn = Inr (JStr sn)"
    "dto_name dto = trim sn"
    using d(1) by auto
  moreover from email_field [OF f(2) e] obtain ve se where
    "map_of b ''email'' = Some ve" "convert_String lib ve = Inr (JStr se)"
    "dto_email dto = trim (toLowerCase se)"
    using d(2) by auto
  moreover from password_field [OF f(3) p] obtain vp where
    "map_of b ''password'' = Some vp" "convert_String lib vp = Inr (JStr (dto_password dto))"
    using d(3) by auto
  moreover from age_field [OF f(4) a] obtain va where
    "map_of b ''age'' = Some va"
    "convert_Number lib va = Inr (JNum (Fin (of_int (dto_age dto))))"
    using d(4) by auto
  ultimately show ?thesis by blast
qed


lemma ValidationPipe_email:
  assumes "ValidationPipe lib b = Inr dto" and "map_of b ''email'' = Some (JStr e)"
  shows "dto_email dto = normalized e"
  using ValidationPipe_fields [OF assms(1)] assms(2) by (auto simp: normalized_def)

lemma code_lower_char:
  "code (lower_char c) =
     (if (65 \<le> code c \<and> code c \<le> 90) \<or> (192 \<le> code c \<and> code c \<le> 222 \<and> code c \<noteq> 215)
      then code c + 32 else code c)"
  by (simp add: lower_char_def code_def)

lemma lower_char_idem: "lower_char (lower_char c) = lower_char c"
proof -
  have "\<not> ((65 \<le> code (lower_char c) \<and> code (lower_char c) \<le> 90)
     \<or> (192 \<le> code (lower_char c) \<and> code (lower_char c) \<le> 222 \<and> code (lower_char c) \<noteq> 215))"
    by (simp add: code_lower_char)
  then show ?thesis
    by (subst lower_char_def) (rule if_not_P)
qed

lemma is_space_lower_char: "is_space (lower_char c) = is_space c"
  by (auto simp: is_space_def code_lower_char)

lemma toLowerCase_idem: "toLowerCase (toLowerCase s) = toLowerCase s"
  by (simp add: toLowerCase_def lower_char_idem)

lemma dropWhile_space_lower:
  "dropWhile is_space (map lower_char s) = map lower_char (dropWhile is_space s)"
  by (induction s) (simp_all add: is_space_lower_char)

lemma trim_toLowerCase: "trim (toLowerCase s) = toLowerCase (trim s)"
  by (simp add: trim_def toLowerCase_def dropWhile_space_lower rev_map)

lemma dropWhile_rev_dropWhile:
  "dropWhile P (rev (dropWhile P (rev (dropWhile P s)))) = rev (dropWhile P (rev (dropWhile P s)))"
  by (metis (no_types, lifting) ext dropWhile_eq_self_iff dropWhile_last
    hd_dropWhile hd_rev last_in_set last_rev rev.simps(1))

lemma trim_idem: "trim (trim s) = trim s"
  by (simp add: trim_def dropWhile_rev_dropWhile)

lemma normalized_idem: "normalized (normalized e) = normalized e"
  by (simp add: normalized_def trim_toLowerCase toLowerCase_idem trim_idem)

lemma ValidationPipe_email_normalized:
  assumes "ValidationPipe lib b = Inr dto"
  shows "normalized (dto_email dto) = dto_email dto"
proof -
  from ValidationPipe_fields [OF assms] obtain se where "dto_email dto = normalized se"
    unfolding normalized_def by blast
  then show ?thesis by (simp add: normalized_idem)
qed

lemma reachable_emails_kept:
  "reachable lib t \<Longrightarrow>
   distinct (map user_email t) \<and> list_all (\<lambda>u. normalized (user_email u) = user_email u) t"
proof (induction rule: reachable.induct)
  case reachable_empty
  show ?case by simp
next
  case (reachable_register t salt cuid b)
  show ?case
  proof (cases "ValidationPipe lib b")
    case (Inl e)
    then show ?thesis
      using reachable_register.IH by (simp add: UserController_register_def)
  next
    case (Inr dto)
    then have c: "UserController_register lib salt cuid t b = register lib salt cuid t dto"
      by (simp add: UserController_register_def)
    have n: "normalized (dto_email dto) = dto_email dto"
      using Inr by (rule ValidationPipe_email_normalized)
    from register_table_after [of lib salt cuid t dto] show ?thesis
      unfolding c using reachable_register.IH n
      by auto
  qed
qed

lemma shouted_jean_dto:
  "ValidationPipe sample_lib shouted_jean_body =
     Inr \<lparr>dto_name = ''Jean Dupont'', dto_email = ''jean@example.com'',
          dto_password = ''Secure1!abc'', dto_age = 30\<rparr>"
  by code_simp

lemma shouted_jean_normalized:
  "normalized ''  JEAN@Example.com '' = normalized (user_email jean)"
  by code_simp

lemma password_pattern_first:
  "password_pattern (c # cs) \<Longrightarrow> password_class c"
  by (simp add: password_pattern_def)

lemma password_pattern_append:
  "password_pattern s \<Longrightarrow> password_pattern (s @ t)"
  by (cases s) (simp_all add: password_pattern_def lookahead_append [where s = "_ # _", simplified])











lemma failed_mem: "m \<in> set (failed rules v) \<longleftrightarrow> (\<exists>p. (m, p) \<in> set rules \<and> \<not> p v)"
  by (force simp: failed_def)

lemma distinct_failed: "distinct (map fst rules) \<Longrightarrow> distinct (failed rules v)"
  by (simp add: failed_def distinct_map_filter rev_map [symmetric])

lemmas rules_defs = name_rules_def email_rules_def password_rules_def age_rules_def

lemma validate_mem:
  "m \<in> set (validate lib b inst) \<longleftrightarrow>
     (\<exists>k. m = PropertyShouldNotExist k \<and> k \<in> set (nonWhitelisted CreateUserDto_properties b))
     \<or> (\<exists>p. (m, p) \<in> set name_rules \<and> \<not> p (i_name inst))
     \<or> (\<exists>p. (m, p) \<in> set (email_rules lib) \<and> \<not> p (i_email inst))
     \<or> (\<exists>p. (m, p) \<in> set password_rules \<and> \<not> p (i_password inst))
     \<or> (\<exists>p. (m, p) \<in> set age_rules \<and> \<not> p (i_age inst))"
  by (auto simp: validate_def failed_mem)

lemma validate_name_messages:
  "(NameIsString \<in> set (validate lib b inst) \<longleftrightarrow> \<not> IsString (i_name inst))
   \<and> (NameRequired \<in> set (validate lib b inst) \<longleftrightarrow> \<not> IsNotEmpty (i_name inst))
   \<and> (NameMinLength \<in> set (validate lib b inst) \<longleftrightarrow> \<not> MinLength 2 (i_name inst))
   \<and> (NameMaxLength \<in> set (validate lib b inst) \<longleftrightarrow> \<not> MaxLength 50 (i_name inst))
   \<and> (NamePattern \<in> set (validate lib b inst) \<longleftrightarrow> \<not> Matches name_pattern (i_name inst))"
  by (simp add: validate_mem rules_defs)

lemma validate_email_messages:
  "(EmailInvalid \<in> set (validate lib b inst) \<longleftrightarrow> \<not> IsEmail lib (i_email inst))
   \<and> (EmailRequired \<in> set (validate lib b inst) \<longleftrightarrow> \<not> IsNotEmpty (i_email inst))"
  by (simp add: validate_mem rules_defs)

lemma validate_password_messages:
  "(PasswordIsString \<in> set (validate lib b inst) \<longleftrightarrow> \<not> IsString (i_password inst))
   \<and> (PasswordRequired \<in> set (validate lib b inst) \<longleftrightarrow> \<not> IsNotEmpty (i_password inst))
   \<and> (PasswordMinLength \<in> set (validate lib b inst) \<longleftrightarrow> \<not> MinLength 8 (i_password inst))
   \<and> (PasswordMaxLength \<in> set (validate lib b inst) \<longleftrightarrow> \<not> MaxLength 128 (i_password inst))
   \<and> (PasswordPattern \<in> set (validate lib b inst)
        \<longleftrightarrow> \<not> Matches password_pattern (i_password inst))"
  by (simp add: validate_mem rules_defs)

lemma validate_age_messages:
  "(AgeIsInt \<in> set (validate lib b inst) \<longleftrightarrow> \<not> IsInt (i_age inst))
   \<and> (AgeMin \<in> set (validate lib b inst) \<longleftrightarrow> \<not> Min_rule 13 (i_age inst))
   \<and> (AgeMax \<in> set (validate lib b inst) \<longleftrightarrow> \<not> Max_rule 120 (i_age inst))
   \<and> (AgeRequired \<in> set (validate lib b inst) \<longleftrightarrow> \<not> IsNotEmpty (i_age inst))"
  by (simp add: validate_mem rules_defs)

lemma validate_property_messages:
  "PropertyShouldNotExist k \<in> set (validate lib b inst) \<longleftrightarrow>
     k \<in> fst ` set b \<and> k \<notin> {''name'', ''email'', ''password'', ''age''}
     \<and> k \<notin> set skipped_properties"
  by (auto simp: validate_mem rules_defs nonWhitelisted_def CreateUserDto_properties_def)

lemma distinct_validate:
  assumes "distinct (map fst b)"
  shows "distinct (validate lib b inst)"
proof -
  have "distinct (map PropertyShouldNotExist (nonWhitelisted CreateUserDto_properties b))"
    using assms by (simp add: distinct_map nonWhitelisted_def inj_on_def)
  moreover have "distinct (failed name_rules (i_name inst))"
    "distinct (failed (email_rules lib) (i_email inst))"
    "distinct (failed password_rules (i_password inst))"
    "distinct (failed age_rules (i_age inst))"
    by (simp_all add: distinct_failed rules_defs)
  ultimately show ?thesis
    unfolding validate_def distinct_append
    by (auto simp: failed_mem rules_defs)
qed

lemma length_failed_name:
  "length (failed name_rules v) =
     of_bool (\<not> IsString v) + of_bool (\<not> IsNotEmpty v) + of_bool (\<not> MinLength 2 v)
     + of_bool (\<not> MaxLength 50 v) + of_bool (\<not> Matches name_pattern v)"
  by (simp add: failed_def name_rules_def)

lemma length_failed_email:
  "length (failed (email_rules lib) v) =
     of_bool (\<not> IsEmail lib v) + of_bool (\<not> IsNotEmpty v)"
  by (simp add: failed_def email_rules_def)

lemma length_failed_password:
  "length (failed password_rules v) =
     of_bool (\<not> IsString v) + of_bool (\<not> IsNotEmpty v) + of_bool (\<not> MinLength 8 v)
     + of_bool (\<not> MaxLength 128 v) + of_bool (\<not> Matches password_pattern v)"
  by (simp add: failed_def password_rules_def)

lemma length_failed_age:
  "length (failed age_rules v) =
     of_bool (\<not> IsInt v) + of_bool (\<not> Min_rule 13 v) + of_bool (\<not> Max_rule 120 v)
     + of_bool (\<not> IsNotEmpty v)"
  by (simp add: failed_def age_rules_def)

lemma length_validate:
  "length (validate lib b inst) =
     length (filter (\<lambda>k. k \<notin> {''name'', ''email'', ''password'', ''age''}
                        \<and> k \<notin> set skipped_properties) (map fst b))
     + (of_bool (\<not> IsString (i_name inst)) + of_bool (\<not> IsNotEmpty (i_name inst))
        + of_bool (\<not> MinLength 2 (i_name inst)) + of_bool (\<not> MaxLength 50 (i_name inst))
        + of_bool (\<not> Matches name_pattern (i_name inst)))
     + (of_bool (\<not> IsEmail lib (i_email inst)) + of_bool (\<not> IsNotEmpty (i_email inst)))
     + (of_bool (\<not> IsString (i_password inst)) + of_bool (\<not> IsNotEmpty (i_password inst))
        + of_bool (\<not> MinLength 8 (i_password inst)) + of_bool (\<not> MaxLength 128 (i_password inst))
        + of_bool (\<not> Matches password_pattern (i_password inst)))
     + (of_bool (\<not> IsInt (i_age inst)) + of_bool (\<not> Min_rule 13 (i_age inst))
        + of_bool (\<not> Max_rule 120 (i_age inst)) + of_bool (\<not> IsNotEmpty (i_age inst)))"
proof -
  have "nonWhitelisted CreateUserDto_properties b =
      filter (\<lambda>k. k \<notin> {''name'', ''email'', ''password'', ''age''}
                        \<and> k \<notin> set skipped_properties) (map fst b)"
    by (simp add: nonWhitelisted_def CreateUserDto_properties_def)
  then show ?thesis
    by (simp only: validate_def length_append length_map
      length_failed_name length_failed_email length_failed_password length_failed_age
      add.assoc)
qed

lemma permuted_body:
  assumes "distinct (map fst b)" and "mset b' = mset b"
  shows "map_of b' = map_of b"
    and "mset (nonWhitelisted declared b') = mset (nonWhitelisted declared b)"
proof -
  have "mset (map fst b') = mset (map fst b)"
    using assms(2) by simp
  then have "distinct (map fst b')"
    using assms(1) by (metis mset_eq_imp_distinct_iff)
  moreover have "set b' = set b"
    using assms(2) by (rule mset_eq_setD)
  ultimately show "map_of b' = map_of b"
    using assms(1) by (simp add: map_of_inject_set)
  show "mset (nonWhitelisted declared b') = mset (nonWhitelisted declared b)"
    using assms(2) by (simp add: nonWhitelisted_def)
qed

lemma permuted_validate:
  assumes "distinct (map fst b)" and "mset b' = mset b"
  shows "plainToInstance lib b' = plainToInstance lib b"
    and "mset (validate lib b' inst) = mset (validate lib b inst)"
proof -
  have f: "field c g b' k = field c g b k" for c g k
    using permuted_body(1) [OF assms] by (simp add: field_def)
  show "plainToInstance lib b' = plainToInstance lib b"
    unfolding plainToInstance_def f ..
  show "mset (validate lib b' inst) = mset (validate lib b inst)"
    using permuted_body(2) [OF assms] by (simp add: validate_def)
qed

lemma short_name_instance:
  "plainToInstance lib short_name_body =
     Inr \<lparr>i_name = JStr ''J'', i_email = JStr ''a@b.com'', i_password = JStr ''Secure1!abc'',
      i_age = JNum (Fin 30)\<rparr>"
  by code_simp

lemma short_name_validate:
  assumes "isEmail lib ''a@b.com''"
  shows "validate lib short_name_body
     \<lparr>i_name = JStr ''J'', i_email = JStr ''a@b.com'', i_password = JStr ''Secure1!abc'',
      i_age = JNum (Fin 30)\<rparr> = [NameMinLength]"
  using assms unfolding validate_def
  by (simp add: short_name_body_def nonWhitelisted_def CreateUserDto_properties_def
        failed_def name_rules_def email_rules_def password_rules_def age_rules_def
        name_pattern_def password_pattern_def lookahead_def char_class_defs)

lemma short_name_refused:
  assumes "isEmail lib ''a@b.com''"
  shows "ValidationPipe lib short_name_body = Inl (BadRequestException [NameMinLength])"
    and "ValidationPipe lib short_name_body_reordered
         = Inl (BadRequestException [NameMinLength])"
proof -
  let ?i = "\<lparr>i_name = JStr ''J'', i_email = JStr ''a@b.com'', i_password = JStr ''Secure1!abc'',
      i_age = JNum (Fin 30)\<rparr>"
  show "ValidationPipe lib short_name_body = Inl (BadRequestException [NameMinLength])"
    by (simp add: ValidationPipe_def short_name_instance short_name_validate [OF assms])
  have m: "distinct (map fst short_name_body)"
    "mset short_name_body_reordered = mset short_name_body"
    by (simp_all add: short_name_body_def short_name_body_reordered_def)
  have "mset (validate lib short_name_body_reordered ?i) = {#NameMinLength#}"
    using permuted_validate(2) [OF m] short_name_validate [OF assms] by simp
  then have "validate lib short_name_body_reordered ?i = [NameMinLength]"
    by (metis mset_single_iff_right)
  then show "ValidationPipe lib short_name_body_reordered
         = Inl (BadRequestException [NameMinLength])"
    by (simp add: ValidationPipe_def permuted_validate(1) [OF m] short_name_instance)
qed

lemma four_errors_instance:
  "plainToInstance sample_lib four_errors_body =
     Inr \<lparr>i_name = JStr ''J'', i_email = JStr ''invalid-email'',
          i_password = JStr ''password'', i_age = JNum (Fin 12)\<rparr>"
  by code_simp

lemma four_errors:
  "validate sample_lib four_errors_body
     \<lparr>i_name = JStr ''J'', i_email = JStr ''invalid-email'',
      i_password = JStr ''password'', i_age = JNum (Fin 12)\<rparr>
   = [NameMinLength, EmailInvalid, PasswordPattern, AgeMin]"
  by code_simp























lemma jean_login:
  "AuthController_login sample_lib [jean] unknown_login_body
     = Inl (UnauthorizedException InvalidCredentials)"
  by code_simp

section \<open>Registration\<close>




text \<open>
  C9. The service fails with the conflict exactly when a row holds the DTO's email;
  then the table is as before and the only call made is the lookup by email: the
  password is not hashed, no row is created and no token is signed. The same holds of
  the route.
\<close>

theorem conflict_leaves_table_unchanged:
  "(response (register lib salt cuid t dto) = Inl ConflictException
      \<longleftrightarrow> dto_email dto \<in> user_email ` set t)
   \<and> (response (register lib salt cuid t dto) = Inl ConflictException
      \<longrightarrow> table_after (register lib salt cuid t dto) = t
        \<and> calls (register lib salt cuid t dto) = [Call_findUnique_email (dto_email dto)])
   \<and> (response (UserController_register lib salt cuid t b) = Inl ConflictException
      \<longrightarrow> table_after (UserController_register lib salt cuid t b) = t
        \<and> (\<exists>e. calls (UserController_register lib salt cuid t b) = [Call_findUnique_email e]))"
proof (intro conjI impI)
  show "(response (register lib salt cuid t dto) = Inl ConflictException)
      = (dto_email dto \<in> user_email ` set t)"
    by (rule register_conflict_iff)
next
  assume "response (register lib salt cuid t dto) = Inl ConflictException"
  then have "dto_email dto \<in> user_email ` set t" by (simp add: register_conflict_iff)
  then show "table_after (register lib salt cuid t dto) = t"
    and "calls (register lib salt cuid t dto) = [Call_findUnique_email (dto_email dto)]"
    by (simp_all add: register_conflict)
next
  assume c: "response (UserController_register lib salt cuid t b) = Inl ConflictException"
  have "\<exists>dto. ValidationPipe lib b = Inr dto"
  proof (cases "ValidationPipe lib b")
    case (Inl e)
    with c have "e = ConflictException"
      by (simp add: UserController_register_def)
    with Inl show ?thesis
      using ValidationPipe_cases [of lib b] by auto
  qed simp
  then obtain dto where d: "ValidationPipe lib b = Inr dto" ..
  then have "response (register lib salt cuid t dto) = Inl ConflictException"
    using c by (simp add: UserController_register_def)
  then have "dto_email dto \<in> user_email ` set t" by (simp add: register_conflict_iff)
  then show "table_after (UserController_register lib salt cuid t b) = t"
    and "\<exists>e. calls (UserController_register lib salt cuid t b) = [Call_findUnique_email e]"
    using d by (simp_all add: UserController_register_def register_conflict)
qed

theorem conflict_leaves_table_unchanged_witness:
  "response (UserController_register sample_lib ''salt'' ''c2'' [jean] jean_body)
     = Inl ConflictException
   \<and> table_after (UserController_register sample_lib ''salt'' ''c2'' [jean] jean_body) = [jean]
   \<and> (\<exists>e. calls (UserController_register sample_lib ''salt'' ''c2'' [jean] jean_body)
          = [Call_findUnique_email e])"
proof -
  have c: "response (UserController_register sample_lib ''salt'' ''c2'' [jean] jean_body)
     = Inl ConflictException"
    by (simp add: UserController_register_def jean_dto register_conflict jean_def)
  then show ?thesis
    using conflict_leaves_table_unchanged
      [of sample_lib "''salt''" "''c2''" "[jean]" _ jean_body]
    by blast
qed

section \<open>Lookup by id\<close>

text \<open>
  C3 at an id no row holds: the service gives \<open>null\<close> and the route hands it on as a
  successful response; no exception is raised.
\<close>

theorem getUserById_unknown_id_gives_null:
  "UserController_getUserById [jean] ''c2'' = Inr None
   \<and> UserController_getUserById [jean] ''c2'' \<noteq> Inl NotFoundException"
  by (simp add: UserController_getUserById_def getUserById_def findUnique_id_def jean_def)

section \<open>The password rule\<close>

text \<open>
  C10. The pattern holds the first character of the password, and no other, to the
  class it ends with: a password that passes the rules of the field begins with a
  character of the class, and a password that passes still passes with any text after
  it, whatever its characters are, up to the maximal length. So \<open>#Aa1@efgh\<close> is
  refused for its first character, which is outside the class, and \<open>Aa1@efgh#\<close> with
  the same character at its end passes.
\<close>

theorem password_pattern_reads_first_character_only:
  "(\<forall>c cs. failed password_rules (JStr (c # cs)) = [] \<longrightarrow> password_class c)
   \<and> (\<forall>s t. failed password_rules (JStr s) = [] \<and> length (s @ t) \<le> 128
        \<longrightarrow> failed password_rules (JStr (s @ t)) = [])
   \<and> \<not> password_class (CHR ''#'')
   \<and> failed password_rules (JStr ''#Aa1@efgh'') = [PasswordPattern]
   \<and> failed password_rules (JStr ''Aa1@efgh#'') = []"
proof (intro conjI allI impI)
  fix c cs
  assume "failed password_rules (JStr (c # cs)) = []"
  then have "password_pattern (c # cs)"
    by (simp add: password_passes)
  then show "password_class c"
    by (rule password_pattern_first)
next
  fix s t
  assume "failed password_rules (JStr s) = [] \<and> length (s @ t) \<le> 128"
  then show "failed password_rules (JStr (s @ t)) = []"
    by (simp add: password_passes password_pattern_append)
next
  show "\<not> password_class (CHR ''#'')"
    by (simp add: char_class_defs)
  show "failed password_rules (JStr ''#Aa1@efgh'') = [PasswordPattern]"
    by code_simp
  show "failed password_rules (JStr ''Aa1@efgh#'') = []"
    by code_simp
qed

theorem password_pattern_reads_first_character_only_witness:
  "failed password_rules (JStr ''Aa1@efgh'') = [] \<and> password_class (CHR ''A'')
   \<and> length (''Aa1@efgh'' @ ''#<> '') \<le> (128::nat)
   \<and> failed password_rules (JStr ''Aa1@efgh#<> '') = []"
proof -
  have a: "failed password_rules (JStr ''Aa1@efgh'') = []"
    by code_simp
  have l: "length (''Aa1@efgh'' @ ''#<> '') \<le> (128::nat)"
    by simp
  from a have "password_class (CHR ''A'')"
    using password_pattern_reads_first_character_only by blast
  moreover from a l have "failed password_rules (JStr (''Aa1@efgh'' @ ''#<> '')) = []"
    using password_pattern_reads_first_character_only by blast
  ultimately show ?thesis using a l by simp
qed

text \<open>
  C5 at the password \<open>#Aa1@efgh\<close>, and at \<open>A\<close>, a line feed, \<open>a1@efgh\<close>: each is a
  string of length 8 to 128 with a lowercase letter, an uppercase letter, a digit and a
  symbol, and the rules of the field refuse each with the message of the pattern, the
  message that asks for one character of each of the four kinds. A body with the first
  password satisfies every rule of section 4.1 and the pipe refuses it.
\<close>

theorem password_with_the_four_kinds_is_refused:
  "spec_password_ok (JStr ''#Aa1@efgh'')
   \<and> failed password_rules (JStr ''#Aa1@efgh'') = [PasswordPattern]
   \<and> spec_password_ok (JStr (CHR ''A'' # CHR 0x0A # ''a1@efgh''))
   \<and> failed password_rules (JStr (CHR ''A'' # CHR 0x0A # ''a1@efgh'')) = [PasswordPattern]
   \<and> satisfies_4_1 sample_lib hash_first_body
   \<and> ValidationPipe sample_lib hash_first_body = Inl (BadRequestException [PasswordPattern])"
  by code_simp

section \<open>Login\<close>

text \<open>
  C6. Two login requests that pass the pipe, one with an email no row holds and one
  with the email of a row whose hash the password does not verify against, get the
  same response: the unauthorized exception with InvalidCredentials.
\<close>

theorem login_failures_are_indistinguishable:
  assumes "ValidationPipe_login lib b1 = Inr d1" and "ValidationPipe_login lib b2 = Inr d2"
    and "findUnique_email t (login_email d1) = None"
    and "findUnique_email t (login_email d2) = Some u"
    and "\<not> bcrypt_compare lib (login_password d2) (user_password u)"
  shows "AuthController_login lib t b1 = Inl (UnauthorizedException InvalidCredentials)
       \<and> AuthController_login lib t b2 = AuthController_login lib t b1
       \<and> login lib t d1 = Inl (UnauthorizedException InvalidCredentials)
       \<and> login lib t d2 = login lib t d1"
  using assms by (simp add: AuthController_login_def login_def)

theorem login_failures_are_indistinguishable_witness:
  "AuthController_login sample_lib [jean] unknown_login_body
     = Inl (UnauthorizedException InvalidCredentials)
   \<and> AuthController_login sample_lib [jean] wrong_password_body
     = AuthController_login sample_lib [jean] unknown_login_body"
proof -
  have 1: "findUnique_email [jean] (login_email \<lparr>login_email = ''a@b.com'', login_password = ''Secure1!abc''\<rparr>) = None"
    by (simp add: findUnique_email_def jean_def)
  have 2: "findUnique_email [jean] (login_email \<lparr>login_email = ''jean@example.com'', login_password = ''wrong''\<rparr>) = Some jean"
    by (simp add: findUnique_email_def jean_def)
  have 3: "\<not> bcrypt_compare sample_lib (login_password \<lparr>login_email = ''jean@example.com'', login_password = ''wrong''\<rparr>) (user_password jean)"
    by (simp add: sample_lib_def jean_def)
  show ?thesis
    using login_failures_are_indistinguishable [OF unknown_login_dto wrong_password_dto 1 2 3]
    by simp
qed

section \<open>Undeclared properties and conversion\<close>




section \<open>Uniqueness of the email\<close>

text \<open>
  C2. In every table the program can reach by registration requests, no two rows have
  the same normalized email; and a registration whose email, lowercased and trimmed,
  is that of a row of the table fails with the conflict and leaves the table as it
  is. The request is one that passes the validation pipe: the pipe runs before the
  service and answers an invalid body itself.
\<close>

theorem no_two_rows_share_a_normalized_email:
  assumes "reachable lib t"
  shows "distinct (map (\<lambda>u. normalized (user_email u)) t)
       \<and> (\<forall>u b e dto salt cuid.
            u \<in> set t \<and> map_of b ''email'' = Some (JStr e)
            \<and> normalized e = normalized (user_email u) \<and> ValidationPipe lib b = Inr dto
            \<longrightarrow> response (UserController_register lib salt cuid t b) = Inl ConflictException
              \<and> table_after (UserController_register lib salt cuid t b) = t)"
proof (intro conjI allI impI)
  from reachable_emails_kept [OF assms]
  have d: "distinct (map user_email t)"
    and n: "list_all (\<lambda>u. normalized (user_email u) = user_email u) t"
    by simp_all
  from n have eq: "map (\<lambda>u. normalized (user_email u)) t = map user_email t"
    by (simp add: list_all_iff)
  show "distinct (map (\<lambda>u. normalized (user_email u)) t)"
    unfolding eq by (rule d)
  fix u b e dto salt cuid
  assume a: "u \<in> set t \<and> map_of b ''email'' = Some (JStr e)
     \<and> normalized e = normalized (user_email u) \<and> ValidationPipe lib b = Inr dto"
  then have "dto_email dto = normalized e"
    using ValidationPipe_email [of lib b dto e] by blast
  also have "\<dots> = user_email u"
    using a n by (simp add: list_all_iff)
  finally have "dto_email dto \<in> user_email ` set t"
    using a by simp
  then show "response (UserController_register lib salt cuid t b) = Inl ConflictException"
    and "table_after (UserController_register lib salt cuid t b) = t"
    using a by (simp_all add: UserController_register_def register_conflict)
qed

theorem no_two_rows_share_a_normalized_email_witness:
  "reachable sample_lib [jean]
   \<and> distinct (map (\<lambda>u. normalized (user_email u)) [jean])
   \<and> response (UserController_register sample_lib ''pepper'' ''c2'' [jean] shouted_jean_body)
       = Inl ConflictException
   \<and> table_after (UserController_register sample_lib ''pepper'' ''c2'' [jean] shouted_jean_body)
       = [jean]"
proof -
  have "reachable sample_lib
      (table_after (UserController_register sample_lib ''salt'' ''c1'' [] jean_body))"
    by (intro reachable_register reachable_empty)
  then have r: "reachable sample_lib [jean]"
    by (simp add: jean_registered)
  have m: "map_of shouted_jean_body ''email'' = Some (JStr ''  JEAN@Example.com '')"
    by (simp add: shouted_jean_body_def)
  show ?thesis
    using no_two_rows_share_a_normalized_email [OF r] r m shouted_jean_normalized
      shouted_jean_dto
    by (metis list.set_intros(1))
qed

section \<open>Collected violations\<close>

text \<open>
  C4, as amended. When the transformation of the body completes, the validator
  reports each of the sixteen decorators of the DTO exactly when the value of its field
  fails it, and each property of the body that the DTO does not declare and the
  transformation does not pass over; with the properties of the body distinct no
  message comes twice, and the number of messages is the number of failed decorators
  plus the number of such properties. A body with at least one message is refused
  with all of them, a body with none is accepted. Giving the same properties in
  another order changes neither the instance nor the messages. The body with the name
  \<open>J\<close>, in either order, gets the message on the minimal length of the name alone.
\<close>

theorem each_failed_decorator_gives_one_message:
  assumes "plainToInstance lib b = Inr inst"
  shows "(NameIsString \<in> set (validate lib b inst) \<longleftrightarrow> \<not> IsString (i_name inst))
   \<and> (NameRequired \<in> set (validate lib b inst) \<longleftrightarrow> \<not> IsNotEmpty (i_name inst))
   \<and> (NameMinLength \<in> set (validate lib b inst) \<longleftrightarrow> \<not> MinLength 2 (i_name inst))
   \<and> (NameMaxLength \<in> set (validate lib b inst) \<longleftrightarrow> \<not> MaxLength 50 (i_name inst))
   \<and> (NamePattern \<in> set (validate lib b inst) \<longleftrightarrow> \<not> Matches name_pattern (i_name inst))
   \<and> (EmailInvalid \<in> set (validate lib b inst) \<longleftrightarrow> \<not> IsEmail lib (i_email inst))
   \<and> (EmailRequired \<in> set (validate lib b inst) \<longleftrightarrow> \<not> IsNotEmpty (i_email inst))
   \<and> (PasswordIsString \<in> set (validate lib b inst) \<longleftrightarrow> \<not> IsString (i_password inst))
   \<and> (PasswordRequired \<in> set (validate lib b inst) \<longleftrightarrow> \<not> IsNotEmpty (i_password inst))
   \<and> (PasswordMinLength \<in> set (validate lib b inst) \<longleftrightarrow> \<not> MinLength 8 (i_password inst))
   \<and> (PasswordMaxLength \<in> set (validate lib b inst) \<longleftrightarrow> \<not> MaxLength 128 (i_password inst))
   \<and> (PasswordPattern \<in> set (validate lib b inst)
        \<longleftrightarrow> \<not> Matches password_pattern (i_password inst))
   \<and> (AgeIsInt \<in> set (validate lib b inst) \<longleftrightarrow> \<not> IsInt (i_age inst))
   \<and> (AgeMin \<in> set (validate lib b inst) \<longleftrightarrow> \<not> Min_rule 13 (i_age inst))
   \<and> (AgeMax \<in> set (validate lib b inst) \<longleftrightarrow> \<not> Max_rule 120 (i_age inst))
   \<and> (AgeRequired \<in> set (validate lib b inst) \<longleftrightarrow> \<not> IsNotEmpty (i_age inst))
   \<and> (\<forall>k. PropertyShouldNotExist k \<in> set (validate lib b inst) \<longleftrightarrow>
          k \<in> fst ` set b \<and> k \<notin> {''name'', ''email'', ''password'', ''age''}
          \<and> k \<notin> set skipped_properties)
   \<and> (distinct (map fst b) \<longrightarrow> distinct (validate lib b inst))
   \<and> length (validate lib b inst) =
       length (filter (\<lambda>k. k \<notin> {''name'', ''email'', ''password'', ''age''}
                        \<and> k \<notin> set skipped_properties) (map fst b))
       + (of_bool (\<not> IsString (i_name inst)) + of_bool (\<not> IsNotEmpty (i_name inst))
          + of_bool (\<not> MinLength 2 (i_name inst)) + of_bool (\<not> MaxLength 50 (i_name inst))
          + of_bool (\<not> Matches name_pattern (i_name inst)))
       + (of_bool (\<not> IsEmail lib (i_email inst)) + of_bool (\<not> IsNotEmpty (i_email inst)))
       + (of_bool (\<not> IsString (i_password inst)) + of_bool (\<not> IsNotEmpty (i_password inst))
          + of_bool (\<not> MinLength 8 (i_password inst))
          + of_bool (\<not> MaxLength 128 (i_password inst))
          + of_bool (\<not> Matches password_pattern (i_password inst)))
       + (of_bool (\<not> IsInt (i_age inst)) + of_bool (\<not> Min_rule 13 (i_age inst))
          + of_bool (\<not> Max_rule 120 (i_age inst)) + of_bool (\<not> IsNotEmpty (i_age inst)))
   \<and> (validate lib b inst \<noteq> []
        \<longrightarrow> ValidationPipe lib b = Inl (BadRequestException (validate lib b inst)))
   \<and> (validate lib b inst = [] \<longrightarrow> (\<exists>dto. ValidationPipe lib b = Inr dto))
   \<and> (\<forall>b'. distinct (map fst b) \<and> mset b' = mset b
        \<longrightarrow> plainToInstance lib b' = Inr inst
          \<and> mset (validate lib b' inst) = mset (validate lib b inst))
   \<and> (isEmail lib ''a@b.com''
        \<longrightarrow> ValidationPipe lib short_name_body = Inl (BadRequestException [NameMinLength])
          \<and> ValidationPipe lib short_name_body_reordered
              = Inl (BadRequestException [NameMinLength]))"
proof -
  note n = validate_name_messages [of lib b inst]
  note e = validate_email_messages [of lib b inst]
  note p = validate_password_messages [of lib b inst]
  note a = validate_age_messages [of lib b inst]
  have k: "\<forall>k. PropertyShouldNotExist k \<in> set (validate lib b inst) \<longleftrightarrow>
          k \<in> fst ` set b \<and> k \<notin> {''name'', ''email'', ''password'', ''age''}
          \<and> k \<notin> set skipped_properties"
    using validate_property_messages [of _ lib b inst] by blast
  have d: "distinct (map fst b) \<longrightarrow> distinct (validate lib b inst)"
    by (simp add: distinct_validate)
  note l = length_validate [of lib b inst]
  have r: "validate lib b inst \<noteq> []
        \<longrightarrow> ValidationPipe lib b = Inl (BadRequestException (validate lib b inst))"
    using assms by (simp add: ValidationPipe_def)
  have s: "validate lib b inst = [] \<longrightarrow> (\<exists>dto. ValidationPipe lib b = Inr dto)"
    using assms by (simp add: ValidationPipe_def)
  have m: "\<forall>b'. distinct (map fst b) \<and> mset b' = mset b
        \<longrightarrow> plainToInstance lib b' = Inr inst
          \<and> mset (validate lib b' inst) = mset (validate lib b inst)"
  proof (intro allI impI)
    fix b' assume h: "distinct (map fst b) \<and> mset b' = mset b"
    then have "plainToInstance lib b' = plainToInstance lib b"
      and "mset (validate lib b' inst) = mset (validate lib b inst)"
      by (simp_all add: permuted_validate)
    with assms show "plainToInstance lib b' = Inr inst
          \<and> mset (validate lib b' inst) = mset (validate lib b inst)"
      by simp
  qed
  have x: "isEmail lib ''a@b.com''
        \<longrightarrow> ValidationPipe lib short_name_body = Inl (BadRequestException [NameMinLength])
          \<and> ValidationPipe lib short_name_body_reordered
              = Inl (BadRequestException [NameMinLength])"
    by (simp add: short_name_refused)
  from n e p a k d l r s m x show ?thesis
    by (intro conjI) (erule conjE | assumption)+
qed

theorem each_failed_decorator_gives_one_message_witness:
  "ValidationPipe sample_lib four_errors_body
     = Inl (BadRequestException [NameMinLength, EmailInvalid, PasswordPattern, AgeMin])
   \<and> NameMinLength \<in> set [NameMinLength, EmailInvalid, PasswordPattern, AgeMin]
   \<and> distinct [NameMinLength, EmailInvalid, PasswordPattern, AgeMin]
   \<and> ValidationPipe sample_lib short_name_body = Inl (BadRequestException [NameMinLength])
   \<and> ValidationPipe sample_lib short_name_body_reordered
       = Inl (BadRequestException [NameMinLength])"
proof -
  let ?i = "\<lparr>i_name = JStr ''J'', i_email = JStr ''invalid-email'',
      i_password = JStr ''password'', i_age = JNum (Fin 12)\<rparr>"
  note w = each_failed_decorator_gives_one_message [OF four_errors_instance]
  have n: "NameMinLength \<in> set (validate sample_lib four_errors_body ?i)
        \<longleftrightarrow> \<not> MinLength 2 (i_name ?i)"
    and d: "distinct (map fst four_errors_body)
        \<longrightarrow> distinct (validate sample_lib four_errors_body ?i)"
    and r: "validate sample_lib four_errors_body ?i \<noteq> []
        \<longrightarrow> ValidationPipe sample_lib four_errors_body
            = Inl (BadRequestException (validate sample_lib four_errors_body ?i))"
    and x: "isEmail sample_lib ''a@b.com''
        \<longrightarrow> ValidationPipe sample_lib short_name_body
              = Inl (BadRequestException [NameMinLength])
          \<and> ValidationPipe sample_lib short_name_body_reordered
              = Inl (BadRequestException [NameMinLength])"
    by (insert w, elim conjE, assumption)+
  have 1: "ValidationPipe sample_lib four_errors_body
     = Inl (BadRequestException [NameMinLength, EmailInvalid, PasswordPattern, AgeMin])"
    using r unfolding four_errors by simp
  have 2: "NameMinLength \<in> set [NameMinLength, EmailInvalid, PasswordPattern, AgeMin]"
    using n unfolding four_errors by simp
  have 3: "distinct [NameMinLength, EmailInvalid, PasswordPattern, AgeMin]"
    using d unfolding four_errors by (simp add: four_errors_body_def)
  have "isEmail sample_lib ''a@b.com''"
    by (simp add: sample_lib_def)
  with x have 4: "ValidationPipe sample_lib short_name_body
              = Inl (BadRequestException [NameMinLength])"
    and 5: "ValidationPipe sample_lib short_name_body_reordered
              = Inl (BadRequestException [NameMinLength])"
    by simp_all
  from 1 2 3 4 5 show ?thesis
    by (intro conjI)
qed

text \<open>
  The claim as it stands fails: a body without a password violates the three rules
  section 4.1 has for the password and gets five messages, one for each decorator of
  the field; and a body whose name is an array violates the three rules of the name
  and gets no validation error but the internal server error.
\<close>

theorem missing_password_violates_three_rules_and_gets_five_messages:
  "spec_violated sample_lib missing_password_body = 3
   \<and> ValidationPipe sample_lib missing_password_body
       = Inl (BadRequestException
           [PasswordPattern, PasswordMaxLength, PasswordMinLength, PasswordRequired,
            PasswordIsString])
   \<and> spec_violated sample_lib array_name_body = 3
   \<and> ValidationPipe sample_lib array_name_body = Inl InternalServerError"
  by code_simp

section \<open>What the responses hold\<close>



end
